theory Spec2Isabelle
  imports Complex_Main "HOL-Library.Product_Lexorder" "HOL-Library.Monad_Syntax"
begin

section \<open>The sentiment agent of \<^verbatim>\<open>src/agent.py\<close>\<close>

text \<open>
  A shallow embedding of the cognitive cycle of \<^verbatim>\<open>agent.py\<close>: perception
  (\<^verbatim>\<open>CoreMind\<close>), the memory store (\<^verbatim>\<open>MemorySystem\<close>), the internal
  dialogue (\<^verbatim>\<open>InternalDialogue\<close>) and the orchestrator
  (\<^verbatim>\<open>SentimentAgent.think\<close>).

  Conventions of the model.
  \<^item> Python floats are modelled by \<^typ>\<open>real\<close>: rounding, NaN and infinities are
    outside the model.
  \<^item> Python strings are \<^typ>\<open>string\<close> restricted to ASCII: \<^verbatim>\<open>str.lower\<close> and
    \<^verbatim>\<open>str.split\<close> act on the ASCII letters and the ASCII white space only.
  \<^item> \<^verbatim>\<open>datetime.now()\<close> is an input: every function that reads the clock takes
    the reading as an argument.
  \<^item> Logging is not modelled.
  \<^item> A raised exception is a value of type \<open>error\<close>; a function that mutates an
    object returns the object's new state next to its result.
\<close>

subsection \<open>Strings\<close>

definition lower_char :: "char \<Rightarrow> char" where
  "lower_char c =
     (let n = (of_char c :: nat) in if 65 \<le> n \<and> n \<le> 90 then char_of (n + 32) else c)"

text \<open>\<^verbatim>\<open>str.lower()\<close>.\<close>

definition lower :: "string \<Rightarrow> string" where
  "lower s = map lower_char s"

text \<open>The ASCII characters for which \<^verbatim>\<open>str.isspace()\<close> holds.\<close>

definition is_space :: "char \<Rightarrow> bool" where
  "is_space c =
     (let n = (of_char c :: nat) in (9 \<le> n \<and> n \<le> 13) \<or> (28 \<le> n \<and> n \<le> 32))"

fun split_from :: "string \<Rightarrow> string \<Rightarrow> string list" where
  "split_from cur [] = (if cur = [] then [] else [cur])"
| "split_from cur (c # cs) =
     (if is_space c then (if cur = [] then split_from [] cs else cur # split_from [] cs)
      else split_from (cur @ [c]) cs)"

text \<open>\<^verbatim>\<open>str.split()\<close> without arguments: the maximal runs of non-space characters.\<close>

definition split_ws :: "string \<Rightarrow> string list" where
  "split_ws s = split_from [] s"

fun starts_with :: "string \<Rightarrow> string \<Rightarrow> bool" where
  "starts_with s [] = True"
| "starts_with [] (w # ws) = False"
| "starts_with (c # cs) (w # ws) = (c = w \<and> starts_with cs ws)"

text \<open>\<^verbatim>\<open>w in s\<close> on strings: \<open>w\<close> occurs in \<open>s\<close> as a contiguous substring.\<close>

fun str_in :: "string \<Rightarrow> string \<Rightarrow> bool" where
  "str_in w [] = (w = [])"
| "str_in w (c # cs) = (starts_with (c # cs) w \<or> str_in w cs)"

text \<open>\<^verbatim>\<open>sep.join(parts)\<close>.\<close>

fun join :: "string \<Rightarrow> string list \<Rightarrow> string" where
  "join sep [] = []"
| "join sep [p] = p"
| "join sep (p # q # ps) = p @ sep @ join sep (q # ps)"

subsection \<open>Data model\<close>

text \<open>
  A naive \<^verbatim>\<open>datetime\<close>, as \<^verbatim>\<open>datetime.now()\<close> returns it. Naive datetimes
  compare lexicographically on their fields, which \<open>dt_key\<close> exposes as a tuple.
\<close>

record datetime =
  year :: nat
  month :: nat
  day :: nat
  hour :: nat
  minute :: nat
  second :: nat
  microsecond :: nat

definition dt_key :: "datetime \<Rightarrow> nat \<times> nat \<times> nat \<times> nat \<times> nat \<times> nat \<times> nat" where
  "dt_key t = (year t, month t, day t, hour t, minute t, second t, microsecond t)"

record Thought =
  content :: string
  timestamp :: datetime
  thought_type :: string
  confidence :: real
  emotional_valence :: real

record Memory =
  content :: string
  timestamp :: datetime
  memory_type :: string
  importance :: real
  emotional_impact :: real
  related_thoughts :: "string list"

text \<open>
  The perception dictionary. Each key is a field that may be absent (\<open>None\<close>): the code
  reads three keys with \<^verbatim>\<open>.get(key, default)\<close> and one with \<^verbatim>\<open>perception[key]\<close>.
\<close>

record perception =
  raw_input :: "string option"
  detected_emotion :: "string option"
  key_concepts :: "string list option"
  question_type :: "string option"
  complexity :: "real option"

datatype error = KeyError string | TypeError | ValueError | RuntimeError string

subsection \<open>\<^verbatim>\<open>CoreMind\<close>: perception and response\<close>

definition positive_words :: "string list" where
  "positive_words = [''happy'', ''joy'', ''love'', ''good'', ''excellent'', ''wonderful'']"

definition negative_words :: "string list" where
  "negative_words = [''sad'', ''angry'', ''hate'', ''bad'', ''terrible'', ''awful'']"

text \<open>\<^verbatim>\<open>sum(1 for word in words if word in text_lower)\<close>.\<close>

definition lexicon_count :: "string list \<Rightarrow> string \<Rightarrow> int" where
  "lexicon_count words text_lower =
     sum_list (map (\<lambda>word. 1) (filter (\<lambda>word. str_in word text_lower) words))"

definition analyze_emotion :: "string \<Rightarrow> string" where
  "analyze_emotion text =
     (let text_lower = lower text;
          positive_count = lexicon_count positive_words text_lower;
          negative_count = lexicon_count negative_words text_lower
      in if positive_count > negative_count then ''positive''
         else if negative_count > positive_count then ''negative''
         else ''neutral'')"

definition extract_concepts :: "string \<Rightarrow> string list" where
  "extract_concepts text =
     (let words = split_ws (lower text);
          important_words = filter (\<lambda>word. length word > 4) words
      in take 5 important_words)"

definition classify_question :: "string \<Rightarrow> string" where
  "classify_question text =
     (let text_lower = lower text
      in if str_in ''what'' text_lower \<or> str_in ''how'' text_lower then ''inquiry''
         else if str_in ''why'' text_lower then ''philosophical''
         else if str_in ''?'' text then ''question''
         else ''statement'')"

definition perceive :: "string \<Rightarrow> perception" where
  "perceive stimulus =
     \<lparr> raw_input = Some stimulus,
       detected_emotion = Some (analyze_emotion stimulus),
       key_concepts = Some (extract_concepts stimulus),
       question_type = Some (classify_question stimulus),
       complexity = Some (real (length (split_ws stimulus)) / 10) \<rparr>"

text \<open>
  \<^verbatim>\<open>max(xs, key=f)\<close> on a non-empty list \<open>x # xs\<close>, as \<open>max_by f x xs\<close>: the
  candidate is replaced only by a strictly greater element, so the first maximal element
  is returned.
\<close>

fun max_by :: "('a \<Rightarrow> real) \<Rightarrow> 'a \<Rightarrow> 'a list \<Rightarrow> 'a" where
  "max_by f best [] = best"
| "max_by f best (x # xs) = max_by f (if f x > f best then x else best) xs"

definition placeholder_reply :: string where
  "placeholder_reply =
     ''I'' @ [CHR 0x27] @ ''m still processing that... give me a moment to think.''"

text \<open>
  \<^verbatim>\<open>t != main_thought\<close> is the equality of the dataclass: two thoughts are equal when
  all five fields are, which is the equality of the record.
\<close>

definition respond :: "Thought list \<Rightarrow> string" where
  "respond thoughts =
     (case thoughts of
        [] \<Rightarrow> placeholder_reply
      | t # ts \<Rightarrow>
          (let main_thought = max_by confidence t ts;
               response_parts = [''From my perspective, '' @ lower (Thought.content main_thought)];
               supporting_thoughts =
                 filter (\<lambda>t. confidence t > 0.7 \<and> t \<noteq> main_thought) thoughts;
               response_parts =
                 (case supporting_thoughts of
                    [] \<Rightarrow> response_parts
                  | s # _ \<Rightarrow>
                      response_parts @ [''I also consider that '' @ lower (Thought.content s)])
           in join '' '' response_parts))"

subsection \<open>\<^verbatim>\<open>datetime.isoformat\<close> and \<^verbatim>\<open>datetime.fromisoformat\<close>\<close>

definition is_leap :: "nat \<Rightarrow> bool" where
  "is_leap y = (y mod 4 = 0 \<and> (y mod 100 \<noteq> 0 \<or> y mod 400 = 0))"

definition days_in_month :: "nat \<Rightarrow> nat \<Rightarrow> nat" where
  "days_in_month y m =
     (if m = 2 then (if is_leap y then 29 else 28)
      else if m = 4 \<or> m = 6 \<or> m = 9 \<or> m = 11 then 30 else 31)"

text \<open>The field ranges that every \<^verbatim>\<open>datetime\<close> object satisfies.\<close>

definition valid_datetime :: "datetime \<Rightarrow> bool" where
  "valid_datetime t =
     (1 \<le> year t \<and> year t \<le> 9999 \<and> 1 \<le> month t \<and> month t \<le> 12 \<and>
      1 \<le> day t \<and> day t \<le> days_in_month (year t) (month t) \<and>
      hour t < 24 \<and> minute t < 60 \<and> second t < 60 \<and> microsecond t < 1000000)"

definition digit_char :: "nat \<Rightarrow> char" where
  "digit_char d = char_of (48 + d)"

text \<open>\<^verbatim>\<open>'%0kd' % n\<close> for \<open>n < 10 ^ k\<close>: the \<open>k\<close> decimal digits of \<open>n\<close>.\<close>

fun zero_pad :: "nat \<Rightarrow> nat \<Rightarrow> string" where
  "zero_pad 0 n = []"
| "zero_pad (Suc k) n = zero_pad k (n div 10) @ [digit_char (n mod 10)]"

text \<open>
  \<^verbatim>\<open>datetime.isoformat()\<close> of a naive datetime:
  \<^verbatim>\<open>YYYY-MM-DDTHH:MM:SS\<close>, followed by \<^verbatim>\<open>.ffffff\<close> when the microsecond is not 0.
\<close>

definition isoformat :: "datetime \<Rightarrow> string" where
  "isoformat t =
     zero_pad 4 (year t) @ ''-'' @ zero_pad 2 (month t) @ ''-'' @ zero_pad 2 (day t) @ ''T'' @
     zero_pad 2 (hour t) @ '':'' @ zero_pad 2 (minute t) @ '':'' @ zero_pad 2 (second t) @
     (if microsecond t = 0 then [] else ''.'' @ zero_pad 6 (microsecond t))"

definition is_digit :: "char \<Rightarrow> bool" where
  "is_digit c = (let n = (of_char c :: nat) in 48 \<le> n \<and> n \<le> 57)"

definition digit_val :: "char \<Rightarrow> nat" where
  "digit_val c = of_char c - 48"

definition read_num :: "nat \<Rightarrow> string \<Rightarrow> (nat \<times> string) option" where
  "read_num k s =
     (if k \<le> length s \<and> list_all is_digit (take k s)
      then Some (foldl (\<lambda>a c. 10 * a + digit_val c) 0 (take k s), drop k s)
      else None)"

definition expect :: "char \<Rightarrow> string \<Rightarrow> string option" where
  "expect c s = (case s of [] \<Rightarrow> None | x # xs \<Rightarrow> if x = c then Some xs else None)"

definition read_fraction :: "string \<Rightarrow> nat option" where
  "read_fraction s =
     (if s = [] then Some 0
      else do {
        s \<leftarrow> expect (CHR ''.'') s;
        (us, s) \<leftarrow> read_num 6 s;
        if s = [] then Some us else None
      })"

text \<open>
  \<^verbatim>\<open>datetime.fromisoformat\<close>, on the two spellings that \<open>isoformat\<close> produces;
  \<open>None\<close> is the \<^verbatim>\<open>ValueError\<close>. The library accepts further ISO-8601 spellings
  (a date alone, another separator, a UTC offset). They do not occur in a file written by
  \<open>save_memories\<close>; the model answers \<open>None\<close> on them, which is not what the library
  does, and every statement below applies \<open>fromisoformat\<close> to the spellings of
  \<open>isoformat\<close> only.
\<close>

definition fromisoformat :: "string \<Rightarrow> datetime option" where
  "fromisoformat s =
     do {
       (y, s) \<leftarrow> read_num 4 s;
       s \<leftarrow> expect (CHR ''-'') s;
       (mo, s) \<leftarrow> read_num 2 s;
       s \<leftarrow> expect (CHR ''-'') s;
       (d, s) \<leftarrow> read_num 2 s;
       s \<leftarrow> expect (CHR ''T'') s;
       (h, s) \<leftarrow> read_num 2 s;
       s \<leftarrow> expect (CHR '':'') s;
       (mi, s) \<leftarrow> read_num 2 s;
       s \<leftarrow> expect (CHR '':'') s;
       (se, s) \<leftarrow> read_num 2 s;
       us \<leftarrow> read_fraction s;
       (let t = \<lparr> year = y, month = mo, day = d, hour = h, minute = mi, second = se,
                  microsecond = us \<rparr>
        in if valid_datetime t then Some t else None)
     }"

subsection \<open>\<^verbatim>\<open>MemorySystem\<close>\<close>

text \<open>
  The value that \<^verbatim>\<open>json.load\<close> returns and \<^verbatim>\<open>json.dump\<close> takes. An object is
  the list of the items of the parsed dictionary. The text of the file is not modelled:
  \<^verbatim>\<open>json.load\<close> of what \<^verbatim>\<open>json.dump\<close> wrote is taken to be the value dumped.
\<close>

datatype json =
    JNull
  | JBool bool
  | JNum real
  | JStr string
  | JArr "json list"
  | JObj "(string \<times> json) list"

text \<open>
  What is found at the path \<^verbatim>\<open>memory_file\<close>: no file, a file that \<^verbatim>\<open>json.load\<close>
  rejects, or a file holding a JSON value.
\<close>

datatype stored_file = Absent | Unparsable | Parsed json

text \<open>
  The state of a \<^verbatim>\<open>MemorySystem\<close>: the list \<^verbatim>\<open>self.memories\<close> and the file at
  \<^verbatim>\<open>self.memory_file\<close>.
\<close>

record MemorySystem =
  memories :: "Memory list"
  memory_file :: stored_file

text \<open>\<^verbatim>\<open>m[key]\<close> on a parsed JSON value; \<open>None\<close> is the exception raised.\<close>

fun subscript :: "json \<Rightarrow> string \<Rightarrow> json option" where
  "subscript (JObj kvs) key = map_of kvs key"
| "subscript _ key = None"

text \<open>
  The fields of \<open>Memory\<close> have the types of the dataclass's annotations, and
  \<open>memory_of_json\<close> is \<^verbatim>\<open>_load_memories\<close> on the records whose values have these
  types: the records that \<open>memory_dict\<close> writes. The code checks no type but the
  timestamp's and keeps a value of any other type in the field; such a memory has no image
  in the record, so a file with such a record is outside the model (the functions below
  answer \<open>None\<close> on it, which is not what the code does). Every statement below applies
  the load to records of the annotated types only.
\<close>

fun as_str :: "json \<Rightarrow> string option" where
  "as_str (JStr s) = Some s"
| "as_str _ = None"

fun as_num :: "json \<Rightarrow> real option" where
  "as_num (JNum r) = Some r"
| "as_num _ = None"

fun as_str_list :: "json \<Rightarrow> string list option" where
  "as_str_list (JArr xs) = those (map as_str xs)"
| "as_str_list _ = None"

definition memory_of_json :: "json \<Rightarrow> Memory option" where
  "memory_of_json m =
     do {
       c \<leftarrow> subscript m ''content'' \<bind> as_str;
       ts \<leftarrow> subscript m ''timestamp'' \<bind> as_str \<bind> fromisoformat;
       mt \<leftarrow> subscript m ''memory_type'' \<bind> as_str;
       imp \<leftarrow> subscript m ''importance'' \<bind> as_num;
       ei \<leftarrow> subscript m ''emotional_impact'' \<bind> as_num;
       rt \<leftarrow> subscript m ''related_thoughts'' \<bind> as_str_list;
       Some \<lparr> Memory.content = c, timestamp = ts, memory_type = mt, importance = imp,
              emotional_impact = ei, related_thoughts = rt \<rparr>
     }"

text \<open>
  \<^verbatim>\<open>for m in data\<close>: a list yields its elements, a dictionary its keys, a string its
  characters; any other value is not iterable.
\<close>

fun iterate :: "json \<Rightarrow> json list option" where
  "iterate (JArr xs) = Some xs"
| "iterate (JObj kvs) = Some (map (\<lambda>kv. JStr (fst kv)) kvs)"
| "iterate (JStr s) = Some (map (\<lambda>c. JStr [c]) s)"
| "iterate _ = None"

definition memories_of_json :: "json \<Rightarrow> Memory list option" where
  "memories_of_json data = iterate data \<bind> (\<lambda>ms. those (map memory_of_json ms))"

text \<open>
  \<^verbatim>\<open>_load_memories\<close>: any exception inside the \<^verbatim>\<open>try\<close> leaves
  \<^verbatim>\<open>self.memories\<close> as it was.
\<close>

definition load_memories :: "MemorySystem \<Rightarrow> MemorySystem" where
  "load_memories ms =
     (case memory_file ms of
        Absent \<Rightarrow> ms
      | Unparsable \<Rightarrow> ms
      | Parsed data \<Rightarrow>
          (case memories_of_json data of
             None \<Rightarrow> ms
           | Some mems \<Rightarrow> ms\<lparr>memories := mems\<rparr>))"

text \<open>\<^verbatim>\<open>MemorySystem.__init__\<close>, given what is at the path.\<close>

definition MemorySystem_init :: "stored_file \<Rightarrow> MemorySystem" where
  "MemorySystem_init f = load_memories \<lparr> memories = [], memory_file = f \<rparr>"

text \<open>\<^verbatim>\<open>asdict(memory)\<close> with the timestamp replaced by its ISO string.\<close>

definition memory_dict :: "Memory \<Rightarrow> json" where
  "memory_dict memory =
     JObj [(''content'', JStr (Memory.content memory)),
           (''timestamp'', JStr (isoformat (Memory.timestamp memory))),
           (''memory_type'', JStr (memory_type memory)),
           (''importance'', JNum (importance memory)),
           (''emotional_impact'', JNum (emotional_impact memory)),
           (''related_thoughts'', JArr (map JStr (related_thoughts memory)))]"

text \<open>
  How the write of \<^verbatim>\<open>_save_memories\<close> ends: the file is written; \<^verbatim>\<open>open\<close> raises
  and the file stays as it was; or an exception after \<^verbatim>\<open>open\<close> leaves a truncated
  file. The exception is caught in both failing cases.
\<close>

datatype write_outcome = Written | Open_failed | Write_failed

definition save_memories :: "write_outcome \<Rightarrow> MemorySystem \<Rightarrow> MemorySystem" where
  "save_memories io ms =
     (case io of
        Written \<Rightarrow> ms\<lparr>memory_file := Parsed (JArr (map memory_dict (memories ms)))\<rparr>
      | Open_failed \<Rightarrow> ms
      | Write_failed \<Rightarrow> ms\<lparr>memory_file := Unparsable\<rparr>)"

text \<open>
  \<^verbatim>\<open>list.sort(key=..., reverse=True)\<close> is stable: elements with equal keys keep
  their order. It is the stable ascending sort of the reversed list, reversed.
\<close>

definition recall :: "perception \<Rightarrow> MemorySystem \<Rightarrow> Memory list" where
  "recall p ms =
     (let concepts = (case key_concepts p of None \<Rightarrow> [] | Some ks \<Rightarrow> ks);
          relevant_memories =
            filter (\<lambda>memory.
                      let memory_words = split_ws (lower (Memory.content memory))
                      in list_ex (\<lambda>concept. concept \<in> set memory_words) concepts)
                   (memories ms);
          relevant_memories =
            rev (sort_key (\<lambda>m. (importance m, dt_key (Memory.timestamp m)))
                   (rev relevant_memories))
      in take 3 relevant_memories)"

text \<open>\<^verbatim>\<open>max(xs, default=d)\<close>.\<close>

definition max_default :: "real list \<Rightarrow> real \<Rightarrow> real" where
  "max_default xs d = (case xs of [] \<Rightarrow> d | y # ys \<Rightarrow> max_by (\<lambda>v. v) y ys)"

definition calculate_importance :: "perception \<Rightarrow> Thought list \<Rightarrow> real" where
  "calculate_importance p thoughts =
     (let c = (case complexity p of None \<Rightarrow> 0 | Some v \<Rightarrow> v);
          max_confidence = max_default (map confidence thoughts) 0;
          emotional_intensity = max_default (map (\<lambda>t. \<bar>emotional_valence t\<bar>) thoughts) 0;
          imp = c * 0.3 + max_confidence * 0.4 + emotional_intensity * 0.3
      in min imp 1.0)"

definition calculate_emotional_impact :: "Thought list \<Rightarrow> real" where
  "calculate_emotional_impact thoughts =
     (if thoughts = [] then 0.0
      else sum_list (map emotional_valence thoughts) / real (length thoughts))"

text \<open>
  \<^verbatim>\<open>store\<close>: \<^verbatim>\<open>perception['raw_input']\<close> raises \<^verbatim>\<open>KeyError\<close> before anything is
  changed; otherwise the memory is appended and then saved.
\<close>

definition store ::
  "perception \<Rightarrow> Thought list \<Rightarrow> string \<Rightarrow> datetime \<Rightarrow> write_outcome \<Rightarrow> MemorySystem
     \<Rightarrow> (error + unit) \<times> MemorySystem" where
  "store p thoughts response now io ms =
     (case raw_input p of
        None \<Rightarrow> (Inl (KeyError ''raw_input''), ms)
      | Some raw \<Rightarrow>
          (let memory =
                 \<lparr> Memory.content = ''Input: '' @ raw @ '' | Response: '' @ response,
                   timestamp = now,
                   memory_type = ''episodic'',
                   importance = calculate_importance p thoughts,
                   emotional_impact = calculate_emotional_impact thoughts,
                   related_thoughts = map Thought.content (take 2 thoughts) \<rparr>
           in (Inr (), save_memories io (ms\<lparr>memories := memories ms @ [memory]\<rparr>))))"

subsection \<open>\<^verbatim>\<open>InternalDialogue\<close>\<close>

text \<open>
  The state of an \<^verbatim>\<open>InternalDialogue\<close>: the history \<^verbatim>\<open>self.thoughts\<close> and the
  dictionary \<^verbatim>\<open>self.personality_traits\<close>.
\<close>

record InternalDialogue =
  thoughts :: "Thought list"
  personality_traits :: "string \<rightharpoonup> real"

definition InternalDialogue_init :: InternalDialogue where
  "InternalDialogue_init =
     \<lparr> thoughts = [],
       personality_traits =
         map_of [(''curiosity'', 0.8), (''empathy'', 0.7), (''skepticism'', 0.6),
                 (''creativity'', 0.5), (''introspection'', 0.9)] \<rparr>"

definition generate_initial_reaction :: "datetime \<Rightarrow> perception \<Rightarrow> Thought" where
  "generate_initial_reaction now p =
     (let qt = (case question_type p of None \<Rightarrow> ''statement'' | Some q \<Rightarrow> q);
          (c, conf) =
            (if qt = ''philosophical''
             then (''This touches on something fundamental that I should consider carefully'',
                   0.8)
             else if qt = ''inquiry''
             then (''I need to access what I know about this topic'', 0.9)
             else (''Let me process what this person is communicating to me'', 0.7))
      in \<lparr> Thought.content = c, timestamp = now, thought_type = ''observation'',
           confidence = conf, emotional_valence = 0.1 \<rparr>)"

definition reflect_on_memories :: "datetime \<Rightarrow> Memory list \<Rightarrow> perception \<Rightarrow> Thought" where
  "reflect_on_memories now mems p =
     (case mems of
        [] \<Rightarrow>
          \<lparr> Thought.content =
              ''I don'' @ [CHR 0x27] @ ''t have much prior experience with this topic'',
            timestamp = now, thought_type = ''reflection'',
            confidence = 0.6, emotional_valence = - 0.1 \<rparr>
      | most_relevant # _ \<Rightarrow>
          \<lparr> Thought.content =
              ''This reminds me of previous experiences, particularly around '' @
              take 50 (Memory.content most_relevant) @ ''...'',
            timestamp = now, thought_type = ''reflection'',
            confidence = 0.8, emotional_valence = emotional_impact most_relevant * 0.5 \<rparr>)"

definition meta_reflection :: "datetime \<Rightarrow> perception \<Rightarrow> Thought list \<Rightarrow> Thought" where
  "meta_reflection now p existing_thoughts =
     \<lparr> Thought.content =
         ''I notice I'' @ [CHR 0x27] @
         ''m approaching this in a particular way - let me consider if there are other perspectives'',
       timestamp = now, thought_type = ''meta-reflection'',
       confidence = 0.7, emotional_valence = 0.2 \<rparr>"

definition generate_curious_thought :: "datetime \<Rightarrow> perception \<Rightarrow> Thought" where
  "generate_curious_thought now p =
     (let concepts = (case key_concepts p of None \<Rightarrow> [] | Some ks \<Rightarrow> ks);
          c = (case concepts of
                 [] \<Rightarrow> ''There might be layers to this that I haven'' @ [CHR 0x27] @
                       ''t considered yet''
               | k # _ \<Rightarrow> ''I wonder about the deeper implications of '' @ k @
                          '' in this context'')
      in \<lparr> Thought.content = c, timestamp = now, thought_type = ''question'',
           confidence = 0.6, emotional_valence = 0.3 \<rparr>)"

text \<open>
  \<^verbatim>\<open>contemplate\<close>. The clock \<open>now\<close> gives the reading for the \<open>k\<close>-th thought
  created in this call. Reading a trait that the dictionary lacks raises
  \<^verbatim>\<open>KeyError\<close>, before the history is extended. The argument \<open>personality\<close> is
  received and never read.
\<close>

definition contemplate ::
  "(nat \<Rightarrow> datetime) \<Rightarrow> perception \<Rightarrow> Memory list \<Rightarrow> 'p \<Rightarrow> InternalDialogue
     \<Rightarrow> (error + Thought list) \<times> InternalDialogue" where
  "contemplate now p mems personality d =
     (let ths = [generate_initial_reaction (now 0) p];
          ths = (if mems \<noteq> [] then ths @ [reflect_on_memories (now (length ths)) mems p]
                 else ths)
      in case personality_traits d ''introspection'' of
           None \<Rightarrow> (Inl (KeyError ''introspection''), d)
         | Some i \<Rightarrow>
             (let ths = (if i > 0.7 then ths @ [meta_reflection (now (length ths)) p ths]
                         else ths)
              in case personality_traits d ''curiosity'' of
                   None \<Rightarrow> (Inl (KeyError ''curiosity''), d)
                 | Some c \<Rightarrow>
                     (let ths = (if c > 0.6
                                 then ths @ [generate_curious_thought (now (length ths)) p]
                                 else ths)
                      in (Inr ths, d\<lparr>thoughts := thoughts d @ ths\<rparr>))))"

subsection \<open>\<^verbatim>\<open>SentimentAgent\<close>\<close>

record SentimentAgent =
  name :: string
  memory :: MemorySystem
  dialogue :: InternalDialogue
  personality :: "string \<rightharpoonup> bool"

text \<open>\<^verbatim>\<open>SentimentAgent.__init__\<close>, given what is found at the path of the memory file.\<close>

definition SentimentAgent_init :: "string \<Rightarrow> stored_file \<Rightarrow> SentimentAgent" where
  "SentimentAgent_init n f =
     \<lparr> name = n,
       memory = MemorySystem_init f,
       dialogue = InternalDialogue_init,
       personality =
         map_of [(''introspective'', True), (''curious'', True), (''empathetic'', True),
                 (''analytical'', True)] \<rparr>"

text \<open>
  The four stages that \<^verbatim>\<open>think\<close> awaits before \<^verbatim>\<open>store\<close>, each as a function that
  may raise. \<open>agent_stages\<close> are the agent's own, which never raise; a stage that fails
  is another value of the record.
\<close>

record stages =
  perceive_stage :: "string \<Rightarrow> error + perception"
  recall_stage :: "perception \<Rightarrow> MemorySystem \<Rightarrow> error + Memory list"
  contemplate_stage ::
    "perception \<Rightarrow> Memory list \<Rightarrow> (string \<rightharpoonup> bool) \<Rightarrow> InternalDialogue
       \<Rightarrow> (error + Thought list) \<times> InternalDialogue"
  respond_stage :: "Thought list \<Rightarrow> error + string"

definition agent_stages :: "(nat \<Rightarrow> datetime) \<Rightarrow> stages" where
  "agent_stages now =
     \<lparr> perceive_stage = (\<lambda>stimulus. Inr (perceive stimulus)),
       recall_stage = (\<lambda>p ms. Inr (recall p ms)),
       contemplate_stage = contemplate now,
       respond_stage = (\<lambda>ths. Inr (respond ths)) \<rparr>"

text \<open>
  The body of the \<^verbatim>\<open>try\<close> of \<^verbatim>\<open>think\<close>: the first stage that raises ends it, and
  the agent keeps what the stages before it changed.
\<close>

definition think_try ::
  "stages \<Rightarrow> string \<Rightarrow> datetime \<Rightarrow> write_outcome \<Rightarrow> SentimentAgent
     \<Rightarrow> (error + string) \<times> SentimentAgent" where
  "think_try st stimulus t io a =
     (case perceive_stage st stimulus of
        Inl e \<Rightarrow> (Inl e, a)
      | Inr p \<Rightarrow>
          (case recall_stage st p (memory a) of
             Inl e \<Rightarrow> (Inl e, a)
           | Inr relevant_memories \<Rightarrow>
               (case contemplate_stage st p relevant_memories (personality a) (dialogue a) of
                  (Inl e, d) \<Rightarrow> (Inl e, a\<lparr>dialogue := d\<rparr>)
                | (Inr ths, d) \<Rightarrow>
                    (case respond_stage st ths of
                       Inl e \<Rightarrow> (Inl e, a\<lparr>dialogue := d\<rparr>)
                     | Inr response \<Rightarrow>
                         (case store p ths response t io (memory a) of
                            (Inl e, m) \<Rightarrow> (Inl e, a\<lparr>dialogue := d, memory := m\<rparr>)
                          | (Inr _, m) \<Rightarrow>
                              (Inr response, a\<lparr>dialogue := d, memory := m\<rparr>))))))"

definition apology :: string where
  "apology =
     ''I'' @ [CHR 0x27] @
     ''m having trouble processing that right now. Could you rephrase it?''"

text \<open>\<^verbatim>\<open>think\<close> with the given stages: the \<^verbatim>\<open>except\<close> turns any exception into the apology.\<close>

definition think_with ::
  "stages \<Rightarrow> string \<Rightarrow> datetime \<Rightarrow> write_outcome \<Rightarrow> SentimentAgent
     \<Rightarrow> string \<times> SentimentAgent" where
  "think_with st stimulus t io a =
     (case think_try st stimulus t io a of
        (Inl e, a') \<Rightarrow> (apology, a')
      | (Inr response, a') \<Rightarrow> (response, a'))"

definition think ::
  "(nat \<Rightarrow> datetime) \<Rightarrow> string \<Rightarrow> datetime \<Rightarrow> write_outcome \<Rightarrow> SentimentAgent
     \<Rightarrow> string \<times> SentimentAgent" where
  "think now stimulus t io a = think_with (agent_stages now) stimulus t io a"

subsection \<open>Sample values\<close>

text \<open>
  A store of three memories, a perception with given key concepts and three thoughts. The
  instances of the theorems below are stated on them.
\<close>

definition example_store :: MemorySystem where
  "example_store =
     \<lparr> memories =
         [\<lparr> Memory.content = ''Input: python basics | Response: fine'',
            timestamp = \<lparr> year = 2024, month = 1, day = 15, hour = 10, minute = 30,
                          second = 0, microsecond = 0 \<rparr>,
            memory_type = ''episodic'', importance = 0.5, emotional_impact = 0.2,
            related_thoughts = [''Let me process what this person is communicating to me''] \<rparr>,
          \<lparr> Memory.content = ''Input: Python tricks | Response: good'',
            timestamp = \<lparr> year = 2024, month = 2, day = 29, hour = 9, minute = 5,
                          second = 7, microsecond = 123456 \<rparr>,
            memory_type = ''episodic'', importance = 0.5, emotional_impact = 0.2,
            related_thoughts = [] \<rparr>,
          \<lparr> Memory.content = ''Input: weather today | Response: sunny'',
            timestamp = \<lparr> year = 2024, month = 3, day = 17, hour = 9, minute = 0,
                          second = 0, microsecond = 0 \<rparr>,
            memory_type = ''episodic'', importance = 0.9, emotional_impact = 0.2,
            related_thoughts = [] \<rparr>],
       memory_file = Absent \<rparr>"

definition example_perception :: "string list \<Rightarrow> perception" where
  "example_perception concepts =
     \<lparr> raw_input = Some ''python'', detected_emotion = Some ''neutral'',
       key_concepts = Some concepts, question_type = Some ''statement'',
       complexity = Some 0.1 \<rparr>"


section \<open>Properties\<close>

subsection \<open>Selecting a maximum\<close>

lemma max_by_mem: "max_by f b xs \<in> set (b # xs)"
  by (induction xs arbitrary: b) auto

lemma max_by_ge_best: "f b \<le> f (max_by f b xs)"
proof (induction xs arbitrary: b)
  case Nil
  then show ?case by simp
next
  case (Cons x xs)
  have "f b \<le> f (if f b < f x then x else b)" by simp
  also have "\<dots> \<le> f (max_by f (if f b < f x then x else b) xs)" by (rule Cons.IH)
  finally show ?case by simp
qed

lemma max_by_ge: "x \<in> set xs \<Longrightarrow> f x \<le> f (max_by f b xs)"
proof (induction xs arbitrary: b)
  case Nil
  then show ?case by simp
next
  case (Cons y ys)
  show ?case
  proof (cases "x = y")
    case True
    have "f x \<le> f (if f b < f y then y else b)" using True by simp
    also have "\<dots> \<le> f (max_by f (if f b < f y then y else b) ys)" by (rule max_by_ge_best)
    finally show ?thesis by simp
  next
    case False
    with Cons.prems have "x \<in> set ys" by simp
    then show ?thesis using Cons.IH by simp
  qed
qed

lemma max_default_nonneg:
  assumes "\<forall>x\<in>set xs. 0 \<le> x" and "0 \<le> d"
  shows "0 \<le> max_default xs d"
proof (cases xs)
  case Nil
  then show ?thesis using assms by (simp add: max_default_def)
next
  case (Cons y ys)
  have "max_by (\<lambda>v. v) y ys \<in> set xs" using Cons max_by_mem [of "\<lambda>v. v" y ys] by simp
  then show ?thesis using assms Cons by (auto simp: max_default_def)
qed

subsection \<open>The importance of a memory\<close>

text \<open>
  Claim C1, as amended. The importance that \<open>store\<close> computes is at most 1 for every
  perception and every list of thoughts. It is at least 0 when the complexity of the
  perception (if present) and the confidence of every thought are not negative: the
  code caps the weighted sum above and not below.
\<close>

theorem calculate_importance_range:
  "calculate_importance p ths \<le> 1 \<and>
   ((\<forall>c. complexity p = Some c \<longrightarrow> 0 \<le> c) \<and> (\<forall>t\<in>set ths. 0 \<le> confidence t)
      \<longrightarrow> 0 \<le> calculate_importance p ths)"
proof (intro conjI impI)
  show "calculate_importance p ths \<le> 1"
    by (simp add: calculate_importance_def Let_def)
next
  assume h: "(\<forall>c. complexity p = Some c \<longrightarrow> 0 \<le> c) \<and> (\<forall>t\<in>set ths. 0 \<le> confidence t)"
  have c: "0 \<le> (case complexity p of None \<Rightarrow> 0 | Some v \<Rightarrow> v)"
    using h by (cases "complexity p") auto
  have m: "0 \<le> max_default (map confidence ths) 0"
    using h by (intro max_default_nonneg) auto
  have e: "0 \<le> max_default (map (\<lambda>t. \<bar>emotional_valence t\<bar>) ths) 0"
    by (intro max_default_nonneg) auto
  show "0 \<le> calculate_importance p ths"
    using c m e by (simp add: calculate_importance_def Let_def)
qed

text \<open>An instance of the bounds, at a perception of complexity 0.2 and one thought.\<close>

theorem calculate_importance_range_witness:
  "0 \<le> calculate_importance
          \<lparr> raw_input = Some ''hello there'', detected_emotion = Some ''neutral'',
            key_concepts = Some [''hello'', ''there''], question_type = Some ''statement'',
            complexity = Some 0.2 \<rparr>
          [\<lparr> Thought.content = ''Let me process what this person is communicating to me'',
             timestamp = \<lparr> year = 2024, month = 1, day = 15, hour = 10, minute = 30,
                           second = 0, microsecond = 0 \<rparr>,
             thought_type = ''observation'', confidence = 0.7, emotional_valence = 0.1 \<rparr>] \<and>
   calculate_importance
          \<lparr> raw_input = Some ''hello there'', detected_emotion = Some ''neutral'',
            key_concepts = Some [''hello'', ''there''], question_type = Some ''statement'',
            complexity = Some 0.2 \<rparr>
          [\<lparr> Thought.content = ''Let me process what this person is communicating to me'',
             timestamp = \<lparr> year = 2024, month = 1, day = 15, hour = 10, minute = 30,
                           second = 0, microsecond = 0 \<rparr>,
             thought_type = ''observation'', confidence = 0.7, emotional_valence = 0.1 \<rparr>] \<le> 1"
  using calculate_importance_range
    [of "\<lparr> raw_input = Some ''hello there'', detected_emotion = Some ''neutral'',
            key_concepts = Some [''hello'', ''there''], question_type = Some ''statement'',
            complexity = Some 0.2 \<rparr>"
        "[\<lparr> Thought.content = ''Let me process what this person is communicating to me'',
             timestamp = \<lparr> year = 2024, month = 1, day = 15, hour = 10, minute = 30,
                           second = 0, microsecond = 0 \<rparr>,
             thought_type = ''observation'', confidence = 0.7, emotional_valence = 0.1 \<rparr>]"]
  by simp

text \<open>
  The importance is negative for a thought of confidence -1 at complexity 0: the lower
  bound of C1 does not hold regardless of sign.
\<close>

theorem calculate_importance_negative:
  "calculate_importance
     \<lparr> raw_input = Some ''x'', detected_emotion = Some ''neutral'', key_concepts = Some [],
       question_type = Some ''statement'', complexity = Some 0 \<rparr>
     [\<lparr> Thought.content = ''x'',
        timestamp = \<lparr> year = 2024, month = 1, day = 15, hour = 10, minute = 30,
                      second = 0, microsecond = 0 \<rparr>,
        thought_type = ''observation'', confidence = - 1, emotional_valence = 0 \<rparr>] < 0"
  by (simp add: calculate_importance_def max_default_def)

subsection \<open>The personality argument of \<open>contemplate\<close>\<close>

text \<open>
  Claim C10. For every perception, every list of memories, every state of the dialogue
  and every clock, two calls of \<open>contemplate\<close> that differ only in the personality
  argument return the same thoughts (content, kind, confidence, emotional valence and
  timestamp) and leave the same state: the gating reads the traits of the dialogue
  itself.
\<close>

theorem contemplate_ignores_personality:
  "contemplate now p mems personality1 d = contemplate now p mems personality2 d"
  by (simp add: contemplate_def)

subsection \<open>The thoughts of a statement without memories\<close>

text \<open>
  Claim C3. For a perception of question type \<^verbatim>\<open>statement\<close> with no key concepts, no
  memories, and a dialogue whose traits have introspection 0.9 and curiosity 0.8
  (whatever the other traits are, and whatever the personality argument is),
  \<open>contemplate\<close> returns exactly three thoughts, in this order: the initial reaction
  (an observation), the meta-reflection and the curious question. No thought reflects on
  memories, and the result is not empty.
\<close>

theorem contemplate_statement_no_memories:
  assumes "question_type p = Some ''statement''"
    and "key_concepts p = Some []"
    and "personality_traits d ''introspection'' = Some 0.9"
    and "personality_traits d ''curiosity'' = Some 0.8"
  shows "fst (contemplate now p [] pers d) =
    Inr [\<lparr> Thought.content = ''Let me process what this person is communicating to me'',
            timestamp = now 0, thought_type = ''observation'',
            confidence = 0.7, emotional_valence = 0.1 \<rparr>,
         \<lparr> Thought.content =
              ''I notice I'' @ [CHR 0x27] @
              ''m approaching this in a particular way - let me consider if there are other perspectives'',
            timestamp = now 1, thought_type = ''meta-reflection'',
            confidence = 0.7, emotional_valence = 0.2 \<rparr>,
         \<lparr> Thought.content =
              ''There might be layers to this that I haven'' @ [CHR 0x27] @ ''t considered yet'',
            timestamp = now 2, thought_type = ''question'',
            confidence = 0.6, emotional_valence = 0.3 \<rparr>]"
  using assms
  by (simp add: contemplate_def generate_initial_reaction_def meta_reflection_def
      generate_curious_thought_def Let_def numeral_2_eq_2)

lemma perceive_empty:
  "question_type (perceive []) = Some ''statement'' \<and> key_concepts (perceive []) = Some []"
  by (simp add: perceive_def classify_question_def extract_concepts_def lower_def split_ws_def)

text \<open>The dialogue as constructed, on the perception of the empty stimulus.\<close>

theorem contemplate_statement_no_memories_witness:
  "map thought_type
     (projr (fst (contemplate (\<lambda>k. \<lparr> year = 2024, month = 1, day = 15, hour = 10, minute = 30,
                                        second = 0, microsecond = k \<rparr>)
                    (perceive []) [] (personality (SentimentAgent_init ''ARIA'' Absent))
                    InternalDialogue_init))) =
   [''observation'', ''meta-reflection'', ''question'']"
proof -
  have q: "question_type (perceive []) = Some ''statement''"
    and k: "key_concepts (perceive []) = Some []"
    using perceive_empty by simp_all
  have i: "personality_traits InternalDialogue_init ''introspection'' = Some 0.9"
    and c: "personality_traits InternalDialogue_init ''curiosity'' = Some 0.8"
    by (simp_all add: InternalDialogue_init_def)
  show ?thesis
    using contemplate_statement_no_memories
      [OF q k i c,
       where now = "\<lambda>k. \<lparr> year = 2024, month = 1, day = 15, hour = 10, minute = 30,
                              second = 0, microsecond = k \<rparr>"
         and pers = "personality (SentimentAgent_init ''ARIA'' Absent)"]
    by simp
qed

subsection \<open>A failed write in \<open>store\<close>\<close>

text \<open>
  Claim C6. When \<open>store\<close> reaches the write of the file (the perception has its raw
  input) and the write fails, \<open>store\<close> returns without raising, and the new memory is
  the last element of the list of memories: the append is not undone.
\<close>

theorem store_absorbs_write_failure:
  assumes "raw_input p = Some raw" and "io \<noteq> Written"
  shows "fst (store p ths response now io ms) = Inr () \<and>
         memories (snd (store p ths response now io ms)) =
           memories ms @
           [\<lparr> Memory.content = ''Input: '' @ raw @ '' | Response: '' @ response,
              timestamp = now, memory_type = ''episodic'',
              importance = calculate_importance p ths,
              emotional_impact = calculate_emotional_impact ths,
              related_thoughts = map Thought.content (take 2 ths) \<rparr>]"
  using assms by (cases io) (simp_all add: store_def save_memories_def)

theorem store_absorbs_write_failure_witness:
  "fst (store (perceive ''hello'') [] ''hi''
          \<lparr> year = 2024, month = 1, day = 15, hour = 10, minute = 30, second = 0,
            microsecond = 0 \<rparr>
          Write_failed (MemorySystem_init Absent)) = Inr () \<and>
   length (memories (snd (store (perceive ''hello'') [] ''hi''
          \<lparr> year = 2024, month = 1, day = 15, hour = 10, minute = 30, second = 0,
            microsecond = 0 \<rparr>
          Write_failed (MemorySystem_init Absent)))) = 1"
proof -
  have r: "raw_input (perceive ''hello'') = Some ''hello''" by (simp add: perceive_def)
  have w: "Write_failed \<noteq> Written" by simp
  have m: "memories (MemorySystem_init Absent) = []"
    by (simp add: MemorySystem_init_def load_memories_def)
  show ?thesis
    using store_absorbs_write_failure [OF r w, of "[]" "''hi''" _ "MemorySystem_init Absent"] m
    by simp
qed

subsection \<open>A failing stage of \<open>think\<close>\<close>

lemma store_raises_unchanged: "store p ths response now io ms = (Inl e, ms') \<Longrightarrow> ms' = ms"
  by (auto simp: store_def Let_def split: option.splits)

text \<open>A stage that raises ends the body of the \<^verbatim>\<open>try\<close> with its exception.\<close>

lemma think_try_stage_raises:
  "perceive_stage st stimulus = Inl e \<Longrightarrow> fst (think_try st stimulus t io a) = Inl e"
  "perceive_stage st stimulus = Inr p \<Longrightarrow> recall_stage st p (memory a) = Inl e \<Longrightarrow>
     fst (think_try st stimulus t io a) = Inl e"
  "perceive_stage st stimulus = Inr p \<Longrightarrow> recall_stage st p (memory a) = Inr ms \<Longrightarrow>
     fst (contemplate_stage st p ms (personality a) (dialogue a)) = Inl e \<Longrightarrow>
     fst (think_try st stimulus t io a) = Inl e"
  "perceive_stage st stimulus = Inr p \<Longrightarrow> recall_stage st p (memory a) = Inr ms \<Longrightarrow>
     fst (contemplate_stage st p ms (personality a) (dialogue a)) = Inr ths \<Longrightarrow>
     respond_stage st ths = Inl e \<Longrightarrow>
     fst (think_try st stimulus t io a) = Inl e"
  "perceive_stage st stimulus = Inr p \<Longrightarrow> recall_stage st p (memory a) = Inr ms \<Longrightarrow>
     fst (contemplate_stage st p ms (personality a) (dialogue a)) = Inr ths \<Longrightarrow>
     respond_stage st ths = Inr r \<Longrightarrow>
     fst (store p ths r t io (memory a)) = Inl e \<Longrightarrow>
     fst (think_try st stimulus t io a) = Inl e"
  by (auto simp: think_try_def split: sum.splits prod.splits)

text \<open>
  Claim C5. When a stage of the cycle raises (perceive, recall, contemplate, respond or
  store), \<open>think\<close> returns the apology, and the memory store is as it was before the
  call: its list of memories and its file. In particular no memory is recorded when the
  perceive stage raises.
\<close>

theorem think_failure_gives_apology:
  assumes "fst (think_try st stimulus t io a) = Inl e"
  shows "fst (think_with st stimulus t io a) = apology \<and>
         memory (snd (think_with st stimulus t io a)) = memory a"
  using assms
  by (auto simp: think_with_def think_try_def split: sum.splits prod.splits
      dest: store_raises_unchanged)

text \<open>The agent as constructed, with a perceive stage that raises.\<close>

theorem think_failure_gives_apology_witness:
  "fst (think_with ((agent_stages (\<lambda>k. \<lparr> year = 2024, month = 1, day = 15, hour = 10, minute = 30,
                                        second = 0, microsecond = k \<rparr>))
                     \<lparr>perceive_stage := \<lambda>s. Inl (RuntimeError ''perceive failed'')\<rparr>)
          ''hello''
          \<lparr> year = 2024, month = 1, day = 15, hour = 10, minute = 30, second = 1,
            microsecond = 0 \<rparr>
          Written (SentimentAgent_init ''ARIA'' Absent)) = apology \<and>
   length (memories (memory (snd (think_with
          ((agent_stages (\<lambda>k. \<lparr> year = 2024, month = 1, day = 15, hour = 10, minute = 30,
                                        second = 0, microsecond = k \<rparr>))
                     \<lparr>perceive_stage := \<lambda>s. Inl (RuntimeError ''perceive failed'')\<rparr>)
          ''hello''
          \<lparr> year = 2024, month = 1, day = 15, hour = 10, minute = 30, second = 1,
            microsecond = 0 \<rparr>
          Written (SentimentAgent_init ''ARIA'' Absent))))) =
   length (memories (memory (SentimentAgent_init ''ARIA'' Absent)))"
proof -
  have f: "fst (think_try ((agent_stages (\<lambda>k. \<lparr> year = 2024, month = 1, day = 15, hour = 10, minute = 30,
                                        second = 0, microsecond = k \<rparr>))
                     \<lparr>perceive_stage := \<lambda>s. Inl (RuntimeError ''perceive failed'')\<rparr>)
          ''hello''
          \<lparr> year = 2024, month = 1, day = 15, hour = 10, minute = 30, second = 1,
            microsecond = 0 \<rparr>
          Written (SentimentAgent_init ''ARIA'' Absent)) = Inl (RuntimeError ''perceive failed'')"
    by (simp add: think_try_def)
  show ?thesis
    using think_failure_gives_apology [OF f] by simp
qed

subsection \<open>A completed cycle\<close>

text \<open>
  With the agent's own stages and a dialogue that has both gating traits, no stage
  raises: \<open>think\<close> returns the response to the thoughts of the cycle and appends one
  memory, whatever the write does.
\<close>

lemma contemplate_returns:
  assumes "personality_traits d ''introspection'' = Some i"
    and "personality_traits d ''curiosity'' = Some c"
  shows "\<exists>ths. fst (contemplate now p mems pers d) = Inr ths \<and> ths \<noteq> [] \<and>
           thoughts (snd (contemplate now p mems pers d)) = thoughts d @ ths"
  using assms by (simp add: contemplate_def Let_def)

lemma think_completes:
  assumes "personality_traits (dialogue a) ''introspection'' = Some i"
    and "personality_traits (dialogue a) ''curiosity'' = Some c"
  shows "\<exists>ths m.
           fst (contemplate now (perceive stimulus) (recall (perceive stimulus) (memory a))
                  (personality a) (dialogue a)) = Inr ths \<and>
           fst (think now stimulus t io a) = respond ths \<and>
           memories (memory (snd (think now stimulus t io a))) = memories (memory a) @ [m] \<and>
           Memory.content m = ''Input: '' @ stimulus @ '' | Response: '' @ respond ths"
proof -
  obtain ths where c: "fst (contemplate now (perceive stimulus)
      (recall (perceive stimulus) (memory a)) (personality a) (dialogue a)) = Inr ths"
    using contemplate_returns
      [OF assms, of now "perceive stimulus" "recall (perceive stimulus) (memory a)"
         "personality a"]
    by blast
  have r: "raw_input (perceive stimulus) = Some stimulus" by (simp add: perceive_def)
  show ?thesis
    using c r
    by (cases io)
       (auto simp: think_def think_with_def think_try_def agent_stages_def store_def Let_def
          save_memories_def split: prod.splits sum.splits)
qed

subsection \<open>The detected emotion\<close>

lemma starts_with_iff: "starts_with s w \<longleftrightarrow> (\<exists>post. s = w @ post)"
  by (induction s w rule: starts_with.induct) auto

lemma str_in_iff: "str_in w s \<longleftrightarrow> (\<exists>pre post. s = pre @ w @ post)"
proof (induction s)
  case Nil
  then show ?case by auto
next
  case (Cons c cs)
  show ?case
  proof
    assume "str_in w (c # cs)"
    then consider "starts_with (c # cs) w" | "str_in w cs" by auto
    then show "\<exists>pre post. c # cs = pre @ w @ post"
    proof cases
      case 1
      then obtain post where "c # cs = w @ post" by (auto simp: starts_with_iff)
      then have "c # cs = [] @ w @ post" by simp
      then show ?thesis by blast
    next
      case 2
      then obtain pre post where "cs = pre @ w @ post" using Cons.IH by auto
      then have "c # cs = (c # pre) @ w @ post" by simp
      then show ?thesis by blast
    qed
  next
    assume "\<exists>pre post. c # cs = pre @ w @ post"
    then obtain pre post where e: "c # cs = pre @ w @ post" by auto
    show "str_in w (c # cs)"
    proof (cases pre)
      case Nil
      then have "starts_with (c # cs) w" using e by (auto simp: starts_with_iff)
      then show ?thesis by simp
    next
      case (Cons x xs)
      then have "cs = xs @ w @ post" using e by simp
      then have "str_in w cs" using Cons.IH by blast
      then show ?thesis by simp
    qed
  qed
qed

lemma lexicon_count_card:
  "distinct ws \<Longrightarrow>
   lexicon_count ws s = int (card {w \<in> set ws. \<exists>pre post. s = pre @ w @ post})"
proof -
  assume d: "distinct ws"
  have "lexicon_count ws s = int (length (filter (\<lambda>w. str_in w s) ws))"
    unfolding lexicon_count_def by (induction ws) auto
  also have "length (filter (\<lambda>w. str_in w s) ws) = card (set (filter (\<lambda>w. str_in w s) ws))"
    using d distinct_card [of "filter (\<lambda>w. str_in w s) ws"] by (simp del: set_filter)
  also have "set (filter (\<lambda>w. str_in w s) ws) = {w \<in> set ws. \<exists>pre post. s = pre @ w @ post}"
    by (auto simp: str_in_iff)
  finally show ?thesis .
qed

lemma distinct_lexicons: "distinct positive_words" "distinct negative_words"
  by (simp_all add: positive_words_def negative_words_def)

lemma lower_example: "lower ''I love this wonderful day'' = ''i love this wonderful day''"
  by code_simp

lemma example_counts:
  "lexicon_count positive_words ''i love this wonderful day'' = 2"
  "lexicon_count negative_words ''i love this wonderful day'' = 0"
  by (simp_all add: lexicon_count_def positive_words_def negative_words_def)

text \<open>
  Claim C9. A hit of a lexicon is one of its words that occurs in the lower-cased text
  as a substring. The detected emotion is \<^verbatim>\<open>positive\<close> exactly when the positive
  lexicon has more hits than the negative one, \<^verbatim>\<open>negative\<close> exactly when it has
  fewer, and \<^verbatim>\<open>neutral\<close> exactly when both have as many. The stimulus
  \<^verbatim>\<open>I love this wonderful day\<close> has 2 positive hits, no negative hit, and is
  \<^verbatim>\<open>positive\<close>.
\<close>

theorem analyze_emotion_by_hits:
  "(analyze_emotion text = ''positive'' \<longleftrightarrow>
      card {w \<in> set negative_words. \<exists>pre post. lower text = pre @ w @ post}
        < card {w \<in> set positive_words. \<exists>pre post. lower text = pre @ w @ post}) \<and>
   (analyze_emotion text = ''negative'' \<longleftrightarrow>
      card {w \<in> set positive_words. \<exists>pre post. lower text = pre @ w @ post}
        < card {w \<in> set negative_words. \<exists>pre post. lower text = pre @ w @ post}) \<and>
   (analyze_emotion text = ''neutral'' \<longleftrightarrow>
      card {w \<in> set positive_words. \<exists>pre post. lower text = pre @ w @ post}
        = card {w \<in> set negative_words. \<exists>pre post. lower text = pre @ w @ post}) \<and>
   analyze_emotion ''I love this wonderful day'' = ''positive'' \<and>
   lexicon_count positive_words (lower ''I love this wonderful day'') = 2 \<and>
   lexicon_count negative_words (lower ''I love this wonderful day'') = 0"
proof -
  have g: "(analyze_emotion text = ''positive'' \<longleftrightarrow>
      card {w \<in> set negative_words. \<exists>pre post. lower text = pre @ w @ post}
        < card {w \<in> set positive_words. \<exists>pre post. lower text = pre @ w @ post}) \<and>
   (analyze_emotion text = ''negative'' \<longleftrightarrow>
      card {w \<in> set positive_words. \<exists>pre post. lower text = pre @ w @ post}
        < card {w \<in> set negative_words. \<exists>pre post. lower text = pre @ w @ post}) \<and>
   (analyze_emotion text = ''neutral'' \<longleftrightarrow>
      card {w \<in> set positive_words. \<exists>pre post. lower text = pre @ w @ post}
        = card {w \<in> set negative_words. \<exists>pre post. lower text = pre @ w @ post})"
    by (simp add: analyze_emotion_def Let_def lexicon_count_card distinct_lexicons)
  have e: "analyze_emotion ''I love this wonderful day'' = ''positive''"
    by (simp add: analyze_emotion_def Let_def lower_example example_counts)
  show ?thesis
    using g e by (simp add: lower_example example_counts)
qed

subsection \<open>The response\<close>

lemma max_by_split_gen:
  assumes "\<forall>y\<in>set pre. f y < f b" and "\<forall>y\<in>set mid. f y \<le> f b"
  shows "\<exists>pre' post. pre @ b # mid @ xs = pre' @ max_by f b xs # post \<and>
           (\<forall>y\<in>set pre'. f y < f (max_by f b xs)) \<and>
           (\<forall>y\<in>set post. f y \<le> f (max_by f b xs))"
  using assms
proof (induction xs arbitrary: b pre mid)
  case Nil
  then show ?case by auto
next
  case (Cons x xs)
  show ?case
  proof (cases "f b < f x")
    case True
    have p: "\<forall>y\<in>set (pre @ b # mid). f y < f x"
      using Cons.prems True by fastforce
    have m: "\<forall>y\<in>set ([]::'a list). f y \<le> f x" by simp
    from Cons.IH [OF p m] True show ?thesis by simp
  next
    case False
    have m: "\<forall>y\<in>set (mid @ [x]). f y \<le> f b"
      using Cons.prems False by auto
    from Cons.IH [OF Cons.prems(1) m] False show ?thesis by simp
  qed
qed

lemma max_by_split:
  "\<exists>pre post. b # xs = pre @ max_by f b xs # post \<and>
     (\<forall>y\<in>set pre. f y < f (max_by f b xs)) \<and>
     (\<forall>y\<in>set post. f y \<le> f (max_by f b xs))"
  using max_by_split_gen [of "[]" f b "[]" xs] by simp

lemma respond_Cons:
  "respond (t # ts) =
     (case filter (\<lambda>u. 0.7 < confidence u \<and> u \<noteq> max_by confidence t ts) (t # ts) of
        [] \<Rightarrow> ''From my perspective, '' @ lower (Thought.content (max_by confidence t ts))
      | s # _ \<Rightarrow>
          ''From my perspective, '' @ lower (Thought.content (max_by confidence t ts)) @
          '' '' @ ''I also consider that '' @ lower (Thought.content s))"
  by (simp add: respond_def Let_def split: list.splits)

lemma lower_inquiry:
  "lower ''I need to access what I know about this topic'' =
     ''i need to access what i know about this topic''"
  by code_simp

lemma lower_reminds:
  "lower ''This reminds me of previous experiences'' =
     ''this reminds me of previous experiences''"
  by code_simp

text \<open>
  Claim C8, as amended. The response to no thoughts is the placeholder. For a non-empty
  list the main thought \<open>m\<close> is the first thought of maximal confidence: every thought
  before it is strictly less confident and every thought after it is at most as
  confident. The response opens with the clause of the lower-cased content of \<open>m\<close>.
  Among the thoughts that are not equal to \<open>m\<close> (a thought with the same five fields
  as \<open>m\<close> is excluded with it), the first of confidence above 0.7, if there is one,
  gives the second clause, after a single space; otherwise there is no second clause.
  For two thoughts of confidence 0.9 and 0.75 the response has both clauses, the first
  thought's first.
\<close>

theorem respond_clauses:
  "respond [] = placeholder_reply \<and>
   (ths \<noteq> [] \<longrightarrow>
      (\<exists>pre m post.
         ths = pre @ m # post \<and>
         (\<forall>t\<in>set pre. confidence t < confidence m) \<and>
         (\<forall>t\<in>set post. confidence t \<le> confidence m) \<and>
         respond ths =
           (case filter (\<lambda>t. 0.7 < confidence t \<and> t \<noteq> m) ths of
              [] \<Rightarrow> ''From my perspective, '' @ lower (Thought.content m)
            | s # _ \<Rightarrow>
                ''From my perspective, '' @ lower (Thought.content m) @ '' '' @
                ''I also consider that '' @ lower (Thought.content s)))) \<and>
   (confidence a = 0.9 \<and> confidence b = 0.75 \<longrightarrow>
      respond [a, b] =
        ''From my perspective, '' @ lower (Thought.content a) @ '' '' @
        ''I also consider that '' @ lower (Thought.content b))"
proof (intro conjI impI)
  show "respond [] = placeholder_reply" by (simp add: respond_def)
next
  assume "ths \<noteq> []"
  then obtain t ts where ths: "ths = t # ts" by (cases ths) auto
  obtain pre post where s: "t # ts = pre @ max_by confidence t ts # post"
    and l: "\<forall>y\<in>set pre. confidence y < confidence (max_by confidence t ts)"
    and r: "\<forall>y\<in>set post. confidence y \<le> confidence (max_by confidence t ts)"
    using max_by_split [of t ts confidence] by blast
  show "\<exists>pre m post.
         ths = pre @ m # post \<and>
         (\<forall>t\<in>set pre. confidence t < confidence m) \<and>
         (\<forall>t\<in>set post. confidence t \<le> confidence m) \<and>
         respond ths =
           (case filter (\<lambda>t. 0.7 < confidence t \<and> t \<noteq> m) ths of
              [] \<Rightarrow> ''From my perspective, '' @ lower (Thought.content m)
            | s # _ \<Rightarrow>
                ''From my perspective, '' @ lower (Thought.content m) @ '' '' @
                ''I also consider that '' @ lower (Thought.content s))"
    apply (rule exI [of _ pre])
    apply (rule exI [of _ "max_by confidence t ts"])
    apply (rule exI [of _ post])
    using s l r ths respond_Cons [of t ts] by simp
next
  assume c: "confidence a = 0.9 \<and> confidence b = 0.75"
  then have "a \<noteq> b" by auto
  with c show "respond [a, b] =
        ''From my perspective, '' @ lower (Thought.content a) @ '' '' @
        ''I also consider that '' @ lower (Thought.content b)"
    by (simp add: respond_Cons)
qed

theorem respond_clauses_witness:
  "respond
     [\<lparr> Thought.content = ''I need to access what I know about this topic'',
        timestamp = \<lparr> year = 2024, month = 1, day = 15, hour = 10, minute = 30, second = 0,
                      microsecond = 0 \<rparr>,
        thought_type = ''observation'', confidence = 0.9, emotional_valence = 0.1 \<rparr>,
      \<lparr> Thought.content = ''This reminds me of previous experiences'',
        timestamp = \<lparr> year = 2024, month = 1, day = 15, hour = 10, minute = 30, second = 0,
                      microsecond = 1 \<rparr>,
        thought_type = ''reflection'', confidence = 0.75, emotional_valence = 0 \<rparr>] =
   ''From my perspective, i need to access what i know about this topic I also consider that this reminds me of previous experiences''"
  using respond_clauses
    [of "[]"
        "\<lparr> Thought.content = ''I need to access what I know about this topic'',
           timestamp = \<lparr> year = 2024, month = 1, day = 15, hour = 10, minute = 30, second = 0,
                         microsecond = 0 \<rparr>,
           thought_type = ''observation'', confidence = 0.9, emotional_valence = 0.1 \<rparr>"
        "\<lparr> Thought.content = ''This reminds me of previous experiences'',
           timestamp = \<lparr> year = 2024, month = 1, day = 15, hour = 10, minute = 30, second = 0,
                         microsecond = 1 \<rparr>,
           thought_type = ''reflection'', confidence = 0.75, emotional_valence = 0 \<rparr>"]
  by (simp add: lower_inquiry lower_reminds)

text \<open>
  Two equal thoughts of confidence 0.9: the second is among the remaining thoughts and
  is more confident than 0.7, and the response has no second clause.
\<close>

theorem respond_equal_thoughts:
  "respond
     [\<lparr> Thought.content = ''I need to access what I know about this topic'',
        timestamp = \<lparr> year = 2024, month = 1, day = 15, hour = 10, minute = 30, second = 0,
                      microsecond = 0 \<rparr>,
        thought_type = ''observation'', confidence = 0.9, emotional_valence = 0.1 \<rparr>,
      \<lparr> Thought.content = ''I need to access what I know about this topic'',
        timestamp = \<lparr> year = 2024, month = 1, day = 15, hour = 10, minute = 30, second = 0,
                      microsecond = 0 \<rparr>,
        thought_type = ''observation'', confidence = 0.9, emotional_valence = 0.1 \<rparr>] =
   ''From my perspective, i need to access what i know about this topic''"
  by (simp add: respond_Cons lower_inquiry)

subsection \<open>Recall\<close>

lemma sorted_desc_stable_sort:
  "sorted_wrt (\<lambda>a b. f b \<le> f a) (rev (sort_key f xs))"
proof -
  have "sorted (map f (sort_key f xs))" by (rule sorted_sort_key)
  then have "sorted_wrt (\<lambda>a b. f a \<le> f b) (sort_key f xs)"
    by (simp add: sorted_wrt_map)
  then show ?thesis by (simp add: sorted_wrt_rev)
qed

lemma recall_eq:
  "recall p ms =
     take 3 (rev (sort_key (\<lambda>m. (importance m, dt_key (Memory.timestamp m)))
       (rev (filter (\<lambda>m. \<exists>c\<in>set (case key_concepts p of None \<Rightarrow> [] | Some ks \<Rightarrow> ks).
                            c \<in> set (split_ws (lower (Memory.content m))))
              (memories ms)))))"
  by (simp add: recall_def Let_def list_ex_iff)

lemma example_words:
  "split_ws (lower ''Input: python basics | Response: fine'') =
     [''input:'', ''python'', ''basics'', ''|'', ''response:'', ''fine'']"
  "split_ws (lower ''Input: Python tricks | Response: good'') =
     [''input:'', ''python'', ''tricks'', ''|'', ''response:'', ''good'']"
  "split_ws (lower ''Input: weather today | Response: sunny'') =
     [''input:'', ''weather'', ''today'', ''|'', ''response:'', ''sunny'']"
  by code_simp+

lemma recall_example:
  "recall (example_perception [''python'']) example_store =
     [memories example_store ! 1, memories example_store ! 0]"
  by (simp add: recall_def Let_def example_words dt_key_def example_store_def
      example_perception_def)

text \<open>
  Claim C4. \<open>recall\<close> returns at most 3 memories. Each of them is a memory of the store
  whose lower-cased content, split at white space, has a token among the key concepts
  of the perception. A memory returned later has a smaller importance than one returned
  earlier, or the same importance and a timestamp that is not later. When no memory of
  the store shares a token with the key concepts, the result is empty.
\<close>

theorem recall_top_three:
  "length (recall p ms) \<le> 3 \<and>
   (\<forall>m\<in>set (recall p ms).
      m \<in> set (memories ms) \<and>
      (\<exists>c\<in>set (case key_concepts p of None \<Rightarrow> [] | Some ks \<Rightarrow> ks).
         c \<in> set (split_ws (lower (Memory.content m))))) \<and>
   (\<forall>i j. i < j \<and> j < length (recall p ms) \<longrightarrow>
      importance (recall p ms ! j) < importance (recall p ms ! i) \<or>
      importance (recall p ms ! j) = importance (recall p ms ! i) \<and>
      dt_key (Memory.timestamp (recall p ms ! j)) \<le> dt_key (Memory.timestamp (recall p ms ! i))) \<and>
   ((\<forall>m\<in>set (memories ms).
       \<forall>c\<in>set (case key_concepts p of None \<Rightarrow> [] | Some ks \<Rightarrow> ks).
         c \<notin> set (split_ws (lower (Memory.content m)))) \<longrightarrow>
    recall p ms = [])"
proof (intro conjI)
  show "length (recall p ms) \<le> 3" by (simp add: recall_eq)
next
  show "\<forall>m\<in>set (recall p ms).
      m \<in> set (memories ms) \<and>
      (\<exists>c\<in>set (case key_concepts p of None \<Rightarrow> [] | Some ks \<Rightarrow> ks).
         c \<in> set (split_ws (lower (Memory.content m))))"
  proof
    fix m assume "m \<in> set (recall p ms)"
    then have "m \<in> set (rev (sort_key (\<lambda>m. (importance m, dt_key (Memory.timestamp m)))
       (rev (filter (\<lambda>m. \<exists>c\<in>set (case key_concepts p of None \<Rightarrow> [] | Some ks \<Rightarrow> ks).
                            c \<in> set (split_ws (lower (Memory.content m))))
              (memories ms)))))"
      unfolding recall_eq by (rule in_set_takeD)
    then show "m \<in> set (memories ms) \<and>
      (\<exists>c\<in>set (case key_concepts p of None \<Rightarrow> [] | Some ks \<Rightarrow> ks).
         c \<in> set (split_ws (lower (Memory.content m))))"
      by simp
  qed
next
  have "sorted_wrt (\<lambda>a b. (importance b, dt_key (Memory.timestamp b))
                         \<le> (importance a, dt_key (Memory.timestamp a))) (recall p ms)"
    unfolding recall_eq by (intro sorted_wrt_take sorted_desc_stable_sort)
  then have "\<forall>i j. i < j \<longrightarrow> j < length (recall p ms) \<longrightarrow>
      (importance (recall p ms ! j), dt_key (Memory.timestamp (recall p ms ! j)))
        \<le> (importance (recall p ms ! i), dt_key (Memory.timestamp (recall p ms ! i)))"
    by (simp add: sorted_wrt_iff_nth_less)
  then show "\<forall>i j. i < j \<and> j < length (recall p ms) \<longrightarrow>
      importance (recall p ms ! j) < importance (recall p ms ! i) \<or>
      importance (recall p ms ! j) = importance (recall p ms ! i) \<and>
      dt_key (Memory.timestamp (recall p ms ! j)) \<le> dt_key (Memory.timestamp (recall p ms ! i))"
    by (simp add: less_eq_prod_simp) (metis order.order_iff_strict)
next
  show "(\<forall>m\<in>set (memories ms).
       \<forall>c\<in>set (case key_concepts p of None \<Rightarrow> [] | Some ks \<Rightarrow> ks).
         c \<notin> set (split_ws (lower (Memory.content m)))) \<longrightarrow>
    recall p ms = []"
  proof
    assume "\<forall>m\<in>set (memories ms).
       \<forall>c\<in>set (case key_concepts p of None \<Rightarrow> [] | Some ks \<Rightarrow> ks).
         c \<notin> set (split_ws (lower (Memory.content m)))"
    then have "filter (\<lambda>m. \<exists>c\<in>set (case key_concepts p of None \<Rightarrow> [] | Some ks \<Rightarrow> ks).
                            c \<in> set (split_ws (lower (Memory.content m))))
              (memories ms) = []"
      by (auto simp: filter_empty_conv)
    then show "recall p ms = []" by (simp add: recall_eq)
  qed
qed

text \<open>
  On the sample store, the concept \<^verbatim>\<open>python\<close> recalls two memories of equal
  importance, the later one first; the concept \<^verbatim>\<open>music\<close> recalls nothing.
\<close>

theorem recall_top_three_witness:
  "length (recall (example_perception [''python'']) example_store) \<le> 3 \<and>
   (importance (recall (example_perception [''python'']) example_store ! 1)
      < importance (recall (example_perception [''python'']) example_store ! 0) \<or>
    importance (recall (example_perception [''python'']) example_store ! 1)
      = importance (recall (example_perception [''python'']) example_store ! 0) \<and>
    dt_key (Memory.timestamp (recall (example_perception [''python'']) example_store ! 1))
      \<le> dt_key (Memory.timestamp (recall (example_perception [''python'']) example_store ! 0))) \<and>
   recall (example_perception [''music'']) example_store = []"
proof -
  have l: "(0::nat) < 1 \<and> 1 < length (recall (example_perception [''python'']) example_store)"
    by (simp add: recall_example)
  have n: "\<forall>m\<in>set (memories example_store).
       \<forall>c\<in>set (case key_concepts (example_perception [''music'']) of
                    None \<Rightarrow> [] | Some ks \<Rightarrow> ks).
         c \<notin> set (split_ws (lower (Memory.content m)))"
    by (simp add: example_store_def example_perception_def example_words)
  show ?thesis
    using recall_top_three [of "example_perception [''python'']" example_store]
      recall_top_three [of "example_perception [''music'']" example_store] l n
    by blast
qed

subsection \<open>Saving and loading\<close>

lemma of_char_digit_char: "d < 10 \<Longrightarrow> (of_char (digit_char d) :: nat) = 48 + d"
  by (simp add: digit_char_def)

lemma is_digit_digit_char: "d < 10 \<Longrightarrow> is_digit (digit_char d)"
  by (simp add: is_digit_def of_char_digit_char)

lemma digit_val_digit_char: "d < 10 \<Longrightarrow> digit_val (digit_char d) = d"
  by (simp add: digit_val_def of_char_digit_char)

lemma length_zero_pad: "length (zero_pad k n) = k"
  by (induction k arbitrary: n) auto

lemma digits_zero_pad: "list_all is_digit (zero_pad k n)"
  by (induction k arbitrary: n) (auto simp: is_digit_digit_char)

lemma value_zero_pad:
  "foldl (\<lambda>a c. 10 * a + digit_val c) 0 (zero_pad k n) = n mod 10 ^ k"
proof (induction k arbitrary: n)
  case 0
  then show ?case by simp
next
  case (Suc k)
  have "foldl (\<lambda>a c. 10 * a + digit_val c) 0 (zero_pad (Suc k) n) =
          10 * ((n div 10) mod 10 ^ k) + n mod 10"
    by (simp add: Suc.IH digit_val_digit_char)
  also have "\<dots> = n mod 10 ^ Suc k"
    by (simp add: mod_mult2_eq)
  finally show ?case .
qed

lemma read_num_zero_pad:
  "n < 10 ^ k \<Longrightarrow> read_num k (zero_pad k n @ rest) = Some (n, rest)"
  by (simp add: read_num_def length_zero_pad digits_zero_pad value_zero_pad)

lemma expect_Cons: "expect c (c # rest) = Some rest"
  by (simp add: expect_def)

lemma read_fraction_isoformat:
  "us < 1000000 \<Longrightarrow>
   read_fraction (if us = 0 then [] else ''.'' @ zero_pad 6 us) = Some us"
  using read_num_zero_pad [of us 6 "[]"]
  by (simp add: read_fraction_def expect_Cons del: zero_pad.simps)

lemma fromisoformat_isoformat:
  assumes "valid_datetime t"
  shows "fromisoformat (isoformat t) = Some t"
proof -
  have y: "year t < 10 ^ 4" and mo: "month t < 10 ^ 2" and d: "day t < 10 ^ 2"
    and h: "hour t < 10 ^ 2" and mi: "minute t < 10 ^ 2" and s: "second t < 10 ^ 2"
    and us: "microsecond t < 1000000"
    using assms by (auto simp: valid_datetime_def days_in_month_def split: if_splits)
  have t: "\<lparr> year = year t, month = month t, day = day t, hour = hour t, minute = minute t,
             second = second t, microsecond = microsecond t \<rparr> = t"
    by simp
  show ?thesis
    unfolding fromisoformat_def isoformat_def
    using assms
    by (simp add: read_num_zero_pad [OF y] read_num_zero_pad [OF mo] read_num_zero_pad [OF d]
        read_num_zero_pad [OF h] read_num_zero_pad [OF mi] read_num_zero_pad [OF s]
        expect_Cons read_fraction_isoformat [OF us] t del: zero_pad.simps)
qed

lemma as_str_list_JStr: "those (map (as_str \<circ> JStr) xs) = Some xs"
  by (induction xs) auto

lemma memory_of_json_memory_dict:
  assumes "valid_datetime (Memory.timestamp m)"
  shows "memory_of_json (memory_dict m) = Some m"
  by (simp add: memory_of_json_def memory_dict_def fromisoformat_isoformat [OF assms]
      as_str_list_JStr)

lemma those_memory_of_json:
  "\<forall>m\<in>set ms. valid_datetime (Memory.timestamp m) \<Longrightarrow>
   those (map (memory_of_json \<circ> memory_dict) ms) = Some ms"
  by (induction ms) (auto simp: memory_of_json_memory_dict)

lemma memories_of_json_saved:
  "\<forall>m\<in>set ms. valid_datetime (Memory.timestamp m) \<Longrightarrow>
   memories_of_json (JArr (map memory_dict ms)) = Some ms"
  by (simp add: memories_of_json_def those_memory_of_json)

lemma example_store_valid:
  "\<forall>m\<in>set (memories example_store). valid_datetime (Memory.timestamp m)"
  by (simp add: example_store_def valid_datetime_def days_in_month_def is_leap_def)

text \<open>
  Claim C7. For every list of memories (whose timestamps are datetimes, so within the
  ranges of their fields), saving it and constructing a memory system on the file
  written, or loading it into the same memory system, gives the same list: as many
  memories, each with equal fields, the timestamp equal after
  \<open>isoformat\<close> and \<open>fromisoformat\<close>.
\<close>

theorem save_load_roundtrip:
  assumes "\<forall>m\<in>set (memories ms). valid_datetime (Memory.timestamp m)"
  shows "memories (MemorySystem_init (memory_file (save_memories Written ms))) = memories ms \<and>
         memories (load_memories (save_memories Written ms)) = memories ms"
  using memories_of_json_saved [OF assms]
  by (simp add: MemorySystem_init_def load_memories_def save_memories_def)

theorem save_load_roundtrip_witness:
  "memories (MemorySystem_init (memory_file (save_memories Written example_store))) =
     memories example_store \<and>
   length (memories (MemorySystem_init (memory_file (save_memories Written example_store)))) = 3"
  using save_load_roundtrip [OF example_store_valid]
  by (simp add: example_store_def)

subsection \<open>The number of related thoughts\<close>






end
